theory Spec2Isabelle
  imports Complex_Main "HOL-Library.AList"
begin

section \<open>Python values and exceptions\<close>

text \<open>
  The calculation engine of \<^verbatim>\<open>ramware_app.py\<close> (class \<^verbatim>\<open>WellTestCalculator\<close> and the
  methods \<^verbatim>\<open>perform_calculations\<close> and \<^verbatim>\<open>calculate_averages\<close> of \<^verbatim>\<open>RamWareApp\<close>)
  works on Python floats. A float is modelled as a \<^typ>\<open>real\<close>: rounding and overflow are
  not represented, every other fault of the source is.

  Python's \<^verbatim>\<open>**\<close> on a negative float and a fractional exponent returns a number of
  type \<^verbatim>\<open>complex\<close> instead of raising. Such a value is carried as \<open>Cplx\<close>: the
  model tracks that the number is complex (which decides every later branch and
  exception), not its value.
\<close>

datatype exn = ZeroDivisionError | ValueError | TypeError | KeyError

datatype pynum = Float real | Cplx

text \<open>Arithmetic between a number and floats keeps a float a float and a complex complex.\<close>

fun map_num :: "(real \<Rightarrow> real) \<Rightarrow> pynum \<Rightarrow> pynum" where
  "map_num f (Float x) = Float (f x)"
| "map_num f Cplx = Cplx"

fun add_num :: "pynum \<Rightarrow> pynum \<Rightarrow> pynum" where
  "add_num (Float x) (Float y) = Float (x + y)"
| "add_num _ _ = Cplx"

text \<open>Sequencing inside a \<^verbatim>\<open>try\<close> block: the first exception ends the block.\<close>

fun bnd :: "exn + 'a \<Rightarrow> ('a \<Rightarrow> exn + 'b) \<Rightarrow> exn + 'b" where
  "bnd (Inl e) f = Inl e"
| "bnd (Inr v) f = f v"

text \<open>\<^verbatim>\<open>try: ... except: return d\<close>: every exception is replaced by the default.\<close>

fun except_return :: "'a \<Rightarrow> exn + 'a \<Rightarrow> 'a" where
  "except_return d (Inl e) = d"
| "except_return d (Inr v) = v"

definition float_div :: "real \<Rightarrow> real \<Rightarrow> exn + real" where
  "float_div a b = (if b = 0 then Inl ZeroDivisionError else Inr (a / b))"

definition num_div :: "pynum \<Rightarrow> real \<Rightarrow> exn + pynum" where
  "num_div a b = (if b = 0 then Inl ZeroDivisionError else Inr (map_num (\<lambda>x. x / b) a))"

definition math_sqrt :: "real \<Rightarrow> exn + real" where
  "math_sqrt x = (if x < 0 then Inl ValueError else Inr (sqrt x))"

text \<open>
  \<^verbatim>\<open>x ** y\<close> on floats: a zero base with a negative exponent raises, a negative base
  with a fractional exponent gives a complex number.
\<close>

definition float_pow :: "real \<Rightarrow> real \<Rightarrow> exn + pynum" where
  "float_pow x y =
     (if 0 < x then Inr (Float (x powr y))
      else if x = 0 then
        (if y < 0 then Inl ZeroDivisionError
         else if y = 0 then Inr (Float 1) else Inr (Float 0))
      else if y = of_int \<lfloor>y\<rfloor> then Inr (Float (x powi \<lfloor>y\<rfloor>))
      else Inr Cplx)"

section \<open>WellTestCalculator\<close>

text \<open>
  \<^verbatim>\<open>calculate_oil_api_60f(oil_api, oil_temp)\<close>. Its \<^verbatim>\<open>except\<close> branch is reached only by
  arguments that are not numbers, which the types exclude.
\<close>

definition calculate_oil_api_60f :: "real \<Rightarrow> real \<Rightarrow> real" where
  "calculate_oil_api_60f oil_api oil_temp =
     (let oil_temp = oil_temp * 9 / 5 + 32 in
      if oil_temp \<le> 60 then oil_api
      else (let delta_t = oil_temp - 60 in
            oil_api - 0.00035 * delta_t * (oil_api - 10)))"

text \<open>
  \<^verbatim>\<open>calculate_vcf_sep(sep_temp, oil_api_60f)\<close>. \<^verbatim>\<open>math.exp\<close> raises on float overflow
  only, so over the reals the body has no fault.
\<close>

definition calculate_vcf_sep :: "real \<Rightarrow> real \<Rightarrow> real" where
  "calculate_vcf_sep sep_temp oil_api_60f =
     (let sep_temp = sep_temp * 9 / 5 + 32;
          delta_t = sep_temp - 60;
          alpha = 0.00034878 - 0.00000091 * oil_api_60f;
          beta = 0.0000000025
      in exp (- (alpha * delta_t + beta * delta_t ^ 2)))"

text \<open>
  \<^verbatim>\<open>calculate_shrinkage_factor(gor2, sep_p, oil_api_60f)\<close>. A complex \<^verbatim>\<open>gor2\<close> makes the
  comparison \<^verbatim>\<open>gor2 < 100\<close> raise \<^verbatim>\<open>TypeError\<close>, which the \<^verbatim>\<open>except\<close> turns into 1.0.
\<close>

definition calculate_shrinkage_factor :: "pynum \<Rightarrow> real \<Rightarrow> real \<Rightarrow> real" where
  "calculate_shrinkage_factor gor2 sep_p oil_api_60f =
     except_return 1
       (case gor2 of
          Cplx \<Rightarrow> Inl TypeError
        | Float g \<Rightarrow>
            (let c = (if oil_api_60f > 35 then 0.00000025
                      else if 25 \<le> oil_api_60f \<and> oil_api_60f \<le> 35 then 0.0000003
                      else 0.00000035);
                 c = (if g < 100 \<and> sep_p < 50 then 0.00000005
                      else if g < 100 then 0.0000001
                      else if sep_p < 50 then 0.0000002
                      else c)
             in Inr (1 - c * g * sep_p)))"

text \<open>
  The three correlations. Each converts the pressure it is given to psia once more
  (\<^verbatim>\<open>sep_p = sep_p + 14.7\<close>); \<^verbatim>\<open>_vasquez_beggs\<close> also converts the temperature once more.
  \<^verbatim>\<open>10 ** exponent\<close> has a positive base and is the real power.
\<close>

definition vasquez_beggs ::
  "real \<Rightarrow> real \<Rightarrow> real \<Rightarrow> real \<Rightarrow> real \<Rightarrow> real \<Rightarrow> real \<Rightarrow> pynum" where
  "vasquez_beggs sg_gas sep_p oil_api_60f sep_temp c1 c2 c3 =
     except_return (Float 0)
       (let sep_p = sep_p + 14.7;
            sep_temp = sep_temp * 9 / 5 + 32
        in bnd (float_pow sep_p c2) (\<lambda>pw.
           bnd (float_div (c3 * oil_api_60f) (sep_temp + 460)) (\<lambda>q.
           Inr (map_num (\<lambda>x. sg_gas * c1 * x * exp q) pw))))"

definition standings :: "real \<Rightarrow> real \<Rightarrow> real \<Rightarrow> real \<Rightarrow> pynum" where
  "standings sg_gas sep_p oil_api_60f sep_temp =
     except_return (Float 0)
       (let sep_p = sep_p + 14.7;
            exponent = 0.0125 * oil_api_60f - 0.00091 * sep_temp
        in bnd (float_pow (sep_p * (10 powr exponent) / 18.2) 1.204) (\<lambda>pw.
           Inr (map_num (\<lambda>x. sg_gas * x) pw)))"

definition katz :: "real \<Rightarrow> real \<Rightarrow> real \<Rightarrow> real \<Rightarrow> pynum" where
  "katz sg_gas sep_p oil_api_60f sep_temp =
     except_return (Float 0)
       (let sep_p = sep_p + 14.7;
            exponent = 0.01245 * oil_api_60f - 0.00091 * sep_temp
        in bnd (float_pow sep_p 1.182) (\<lambda>pw.
           Inr (map_num (\<lambda>x. 0.224 * sg_gas * x * (10 powr exponent)) pw)))"

text \<open>
  \<^verbatim>\<open>calculate_gor2(oil_api_60f, sg_gas, sep_p, sep_temp, method)\<close>. The body converts
  pressure and temperature before it looks at the method; the \<^verbatim>\<open>VASQUEZ_BEGGS\<close> branch
  converts both a second time. The correlations catch their own exceptions, so the
  enclosing \<^verbatim>\<open>try\<close> has nothing to catch.
\<close>

definition calculate_gor2 :: "real \<Rightarrow> real \<Rightarrow> real \<Rightarrow> real \<Rightarrow> string \<Rightarrow> pynum" where
  "calculate_gor2 oil_api_60f sg_gas sep_p sep_temp method =
     (let sep_p = sep_p + 14.7;
          sep_temp = sep_temp * 9 / 5 + 32
      in if method = ''API'' then
           (if oil_api_60f > 35 then
              vasquez_beggs sg_gas sep_p oil_api_60f sep_temp 0.0178 1.1870 23.931
            else if 25 \<le> oil_api_60f \<and> oil_api_60f \<le> 35 then
              standings sg_gas sep_p oil_api_60f sep_temp
            else katz sg_gas sep_p oil_api_60f sep_temp)
         else if method = ''VASQUEZ_BEGGS'' then
           (let sep_p = sep_p + 14.7;
                sep_temp = sep_temp * 9 / 5 + 32
            in if oil_api_60f \<le> 30 then
                 vasquez_beggs sg_gas sep_p oil_api_60f sep_temp 0.0362 1.0937 25.724
               else vasquez_beggs sg_gas sep_p oil_api_60f sep_temp 0.0178 1.1870 23.931)
         else if method = ''STANDINGS'' then standings sg_gas sep_p oil_api_60f sep_temp
         else if method = ''KATZ'' then katz sg_gas sep_p oil_api_60f sep_temp
         else Float 0)"

text \<open>
  \<^verbatim>\<open>calculate_fpv(sg_gas, p, t, h2s, co2)\<close>. A negative \<^verbatim>\<open>a\<close> or \<^verbatim>\<open>y_h2s\<close> makes
  \<^verbatim>\<open>epsilon\<close>, and with it \<^verbatim>\<open>z\<close>, complex; \<^verbatim>\<open>math.sqrt(z)\<close> then raises \<^verbatim>\<open>TypeError\<close>
  (unless a division by zero came first), and every exception returns 1.0.
\<close>

definition calculate_fpv :: "real \<Rightarrow> real \<Rightarrow> real \<Rightarrow> real \<Rightarrow> real \<Rightarrow> real" where
  "calculate_fpv sg_gas p t h2s co2 =
     except_return 1
       (let y_h2s = h2s / 1000000;
            y_co2 = co2 / 1000000;
            tpc = 168 + 325 * sg_gas - 12.5 * sg_gas ^ 2;
            ppc = 677 + 15 * sg_gas - 37.5 * sg_gas ^ 2;
            a = y_h2s + y_co2
        in bnd (float_pow a 0.9) (\<lambda>a09.
           bnd (float_pow a 1.6) (\<lambda>a16.
           bnd (float_pow y_h2s 0.5) (\<lambda>h05.
           (case (a09, a16, h05) of
              (Float u, Float v, Float w) \<Rightarrow>
                (let epsilon = 120 * (u - v) + 15 * (w - y_h2s ^ 4);
                     tpc_corr = tpc - epsilon
                 in bnd (float_div (ppc * tpc_corr)
                           (tpc + y_h2s * (1 - y_h2s) * epsilon)) (\<lambda>ppc_corr.
                    bnd (float_div (t + 460) tpc_corr) (\<lambda>tpr.
                    bnd (float_div p ppc_corr) (\<lambda>ppr.
                    (let z = 1 - (3.52 * ppr) / (10 powr (0.9813 * tpr))
                               + (0.274 * ppr ^ 2) / (10 powr (0.8157 * tpr))
                     in bnd (math_sqrt z) (\<lambda>s. float_div 1 s))))))
            | _ \<Rightarrow> Inl TypeError)))))"

text \<open>
  \<^verbatim>\<open>calculate_gas_flow(hw, sep_p, gas_t, sg_gas, orifice_d, line_bore, h2s, co2)\<close>.
  \<open>gas_flow_body\<close> is the \<^verbatim>\<open>try\<close> block, \<open>expansion_factor\<close> its line for \<^verbatim>\<open>y2\<close>. A negative
  \<^verbatim>\<open>beta\<close> makes \<^verbatim>\<open>cd\<close> complex; no later operation of the block rejects a complex
  number, so the block then returns a complex rate.
\<close>

definition expansion_factor :: "real \<Rightarrow> real \<Rightarrow> real \<Rightarrow> exn + real" where
  "expansion_factor beta delta_p_psi p1 =
     bnd (float_div ((0.41 + 0.35 * beta ^ 4) * delta_p_psi) (1.28 * p1)) (\<lambda>r. Inr (1 - r))"

definition gas_flow_body ::
  "real \<Rightarrow> real \<Rightarrow> real \<Rightarrow> real \<Rightarrow> real \<Rightarrow> real \<Rightarrow> real \<Rightarrow> real \<Rightarrow> exn + pynum" where
  "gas_flow_body hw sep_p gas_t sg_gas orifice_d line_bore h2s co2 =
     bnd (float_div orifice_d line_bore) (\<lambda>beta.
     bnd (float_pow beta 2.1) (\<lambda>b21.
     (let cd = map_num (\<lambda>x. 0.5959 + 0.0312 * x - 0.1840 * beta ^ 8) b21
      in bnd (math_sqrt (1 - beta ^ 4)) (\<lambda>s1.
         bnd (num_div (map_num (\<lambda>x. 338.17 * orifice_d ^ 2 * x) cd) s1) (\<lambda>fb.
         bnd (math_sqrt sg_gas) (\<lambda>s2.
         bnd (float_div 1 s2) (\<lambda>fg.
         (let pf = sep_p + 14.7;
              delta_p_psi = hw * 0.03613;
              p1 = pf + delta_p_psi
          in bnd (expansion_factor beta delta_p_psi p1) (\<lambda>y2.
             bnd (float_div 520 (gas_t + 460)) (\<lambda>q.
             bnd (math_sqrt q) (\<lambda>ftf.
             (let fpv = calculate_fpv sg_gas p1 gas_t h2s co2
              in bnd (math_sqrt (hw * pf)) (\<lambda>s3.
                 Inr (map_num (\<lambda>x. 24 * x * fg * y2 * ftf * fpv * s3 / 1000) fb))))))))))))))"

definition calculate_gas_flow ::
  "real \<Rightarrow> real \<Rightarrow> real \<Rightarrow> real \<Rightarrow> real \<Rightarrow> real \<Rightarrow> real \<Rightarrow> real \<Rightarrow> pynum" where
  "calculate_gas_flow hw sep_p gas_t sg_gas orifice_d line_bore h2s co2 =
     except_return (Float 0) (gas_flow_body hw sep_p gas_t sg_gas orifice_d line_bore h2s co2)"

text \<open>The two phase-flow functions are plain float arithmetic: nothing in them can raise.\<close>

definition calculate_three_phase_flow ::
  "real \<Rightarrow> real \<Rightarrow> real \<Rightarrow> real \<Rightarrow> real \<Rightarrow> real \<Rightarrow> real \<times> real" where
  "calculate_three_phase_flow vs_oil vs_water wio meter_factor sf vcf_sep =
     (let q_oil = vs_oil * (1 - wio) * meter_factor * sf * vcf_sep * 48;
          q_water = (vs_water * meter_factor + vs_oil * wio) * 48
      in (q_oil, q_water))"

definition calculate_two_phase_flow ::
  "real \<Rightarrow> real \<Rightarrow> real \<Rightarrow> real \<Rightarrow> real \<Rightarrow> real \<times> real" where
  "calculate_two_phase_flow vs_liquid bsw meter_factor sf vcf_sep =
     (let q_oil = vs_liquid * (1 - bsw) * meter_factor * sf * vcf_sep * 48;
          q_water = vs_liquid * meter_factor * bsw * 48
      in (q_oil, q_water))"

text \<open>
  \<^verbatim>\<open>calculate_for_gas_lift(q_gas, q_gas_inj, q_oil, gor2)\<close>. \<open>gas_lift_body\<close> is the \<^verbatim>\<open>try\<close>
  block. \<^verbatim>\<open>max\<close> compares its arguments, so a complex \<^verbatim>\<open>q_gas\<close> raises \<^verbatim>\<open>TypeError\<close>;
  a complex \<^verbatim>\<open>gor2\<close> is only added.
\<close>

definition gas_lift_body :: "pynum \<Rightarrow> real \<Rightarrow> real \<Rightarrow> pynum \<Rightarrow> exn + real \<times> real \<times> pynum" where
  "gas_lift_body q_gas q_gas_inj q_oil gor2 =
     (case q_gas of
        Cplx \<Rightarrow> Inl TypeError
      | Float g \<Rightarrow>
          (let formation_q_gas = max (g - q_gas_inj) 0
           in bnd (if q_oil > 0 then float_div (formation_q_gas * 1000) q_oil else Inr 0)
                (\<lambda>gor1_formation.
                 (let total_gor_formation = add_num (Float gor1_formation) gor2
                  in Inr (formation_q_gas, gor1_formation, total_gor_formation)))))"

definition calculate_for_gas_lift :: "pynum \<Rightarrow> real \<Rightarrow> real \<Rightarrow> pynum \<Rightarrow> real \<times> real \<times> pynum" where
  "calculate_for_gas_lift q_gas q_gas_inj q_oil gor2 =
     except_return (0, 0, Float 0) (gas_lift_body q_gas q_gas_inj q_oil gor2)"

section \<open>The project and its time series\<close>

text \<open>
  \<^verbatim>\<open>current_project["parameters"]\<close> as the parameters page saves it: every key the
  engine reads is present. The three selections are the combo boxes' texts.
\<close>

record parameters =
  oil_api :: real
  oil_temp :: real
  meter_factor :: real
  production_type :: string
  separation_type :: string
  gor2_method :: string
  line_bore :: real
  h2s :: real
  co2 :: real
  orifice_diameter :: real
  sg_gas :: real

text \<open>
  One row of the data-entry table, a dictionary from column header to value. A field
  is \<open>None\<close> when the row has no such key: \<^verbatim>\<open>entry.get(key, 0)\<close> then reads 0, and
  \<^verbatim>\<open>entry[key]\<close> raises \<^verbatim>\<open>KeyError\<close>. The fields stand for the keys \<^verbatim>\<open>Time\<close>,
  \<^verbatim>\<open>Meter Oil (BBL)\<close>, \<^verbatim>\<open>Meter Water (BBL)\<close>, \<^verbatim>\<open>WIO (%)\<close>, \<^verbatim>\<open>Meter Liquid (BBL)\<close>,
  \<^verbatim>\<open>BSW (%)\<close>, the oil temperature, \<^verbatim>\<open>SEP P (PSIG)\<close>, the gas temperature, the gas
  differential pressure and \<^verbatim>\<open>Q Gas Inj (MSCF/D)\<close>.
\<close>

record entry =
  Time :: "string option"
  Meter_Oil :: "real option"
  Meter_Water :: "real option"
  WIO :: "real option"
  Meter_Liquid :: "real option"
  BSW :: "real option"
  Oil_T :: "real option"
  SEP_P :: "real option"
  GAS_T :: "real option"
  GAS_DP :: "real option"
  Q_Gas_Inj :: "real option"

fun get0 :: "real option \<Rightarrow> real" where
  "get0 None = 0"
| "get0 (Some v) = v"

text \<open>
  A result row is a dictionary in insertion order: the time label is a string, every
  other value a number. \<open>AList.update\<close> is \<^verbatim>\<open>d[k] = v\<close>.
\<close>

datatype cell = Text string | Number pynum

type_synonym row = "(string \<times> cell) list"

text \<open>The loop's carried variables.\<close>

record meters =
  prev_meter_oil :: real
  prev_meter_water :: real
  prev_meter_liquid :: real

text \<open>
  The volume differences of one iteration (lines 1546 to 1558): the three-phase branch
  sets \<^verbatim>\<open>vs_oil\<close>, \<^verbatim>\<open>vs_water\<close> and \<^verbatim>\<open>wio\<close>, the other branch \<^verbatim>\<open>vs_liquid\<close> and \<^verbatim>\<open>bsw\<close>.
\<close>

datatype volumes = Three_phase real real real | Two_phase real real

definition volume_differences :: "parameters \<Rightarrow> meters \<Rightarrow> entry \<Rightarrow> volumes \<times> meters" where
  "volume_differences params prev e =
     (if separation_type params = ''THREE PHASES'' then
        (let meter_oil = get0 (Meter_Oil e);
             meter_water = get0 (Meter_Water e);
             vs_oil = meter_oil - prev_meter_oil prev;
             vs_water = meter_water - prev_meter_water prev;
             wio = get0 (WIO e) / 100
         in (Three_phase vs_oil vs_water wio,
             prev\<lparr>prev_meter_oil := meter_oil, prev_meter_water := meter_water\<rparr>))
      else
        (let meter_liquid = get0 (Meter_Liquid e);
             vs_liquid = meter_liquid - prev_meter_liquid prev;
             bsw = get0 (BSW e) / 100
         in (Two_phase vs_liquid bsw, prev\<lparr>prev_meter_liquid := meter_liquid\<rparr>)))"

text \<open>
  The expression of line 1610, \<^verbatim>\<open>(q_gas * 1000) / q_oil if q_oil > 0 else 0\<close>. It stands
  outside every \<^verbatim>\<open>try\<close>: a division by zero here would end the whole calculation.
\<close>

definition gor1_of :: "pynum \<Rightarrow> real \<Rightarrow> exn + pynum" where
  "gor1_of q_gas q_oil =
     (if q_oil > 0 then num_div (map_num (\<lambda>x. x * 1000) q_gas) q_oil else Inr (Float 0))"

text \<open>
  The dispatch of lines 1583 to 1592. The second test of the separation type reads the
  same unchanged parameter as the first, so the flow function follows the branch that
  set the volumes.
\<close>

definition flow_rates :: "parameters \<Rightarrow> volumes \<Rightarrow> real \<Rightarrow> real \<Rightarrow> real \<times> real" where
  "flow_rates params vols sf vcf_sep =
     (case vols of
        Three_phase vs_oil vs_water wio \<Rightarrow>
          calculate_three_phase_flow vs_oil vs_water wio (meter_factor params) sf vcf_sep
      | Two_phase vs_liquid bsw \<Rightarrow>
          calculate_two_phase_flow vs_liquid bsw (meter_factor params) sf vcf_sep)"

text \<open>
  The body of the loop of \<^verbatim>\<open>perform_calculations\<close> for one entry: the carried meters go
  in, the updated meters and the result row come out. The call of
  \<^verbatim>\<open>calculate_oil_api_60f\<close> passes \<^verbatim>\<open>params["oil_temp"]\<close> first and \<^verbatim>\<open>params["oil_api"]\<close>
  second, as line 1563 does.
\<close>

definition process_entry :: "parameters \<Rightarrow> meters \<Rightarrow> entry \<Rightarrow> exn + meters \<times> row" where
  "process_entry params prev e =
     (case Time e of
        None \<Rightarrow> Inl KeyError
      | Some t \<Rightarrow>
          (let result = [(''Time'', Text t)];
               (vols, prev') = volume_differences params prev e;
               sep_temp = get0 (Oil_T e);
               oil_api_60f = calculate_oil_api_60f (oil_temp params) (oil_api params);
               vcf_sep = calculate_vcf_sep sep_temp oil_api_60f;
               sep_p = get0 (SEP_P e);
               gor2 = calculate_gor2 oil_api_60f (sg_gas params) sep_p sep_temp (gor2_method params);
               sf = calculate_shrinkage_factor gor2 sep_p oil_api_60f;
               (q_oil, q_water) = flow_rates params vols sf vcf_sep;
               result = AList.update ''Q Oil'' (Number (Float q_oil)) result;
               result = AList.update ''Q Water'' (Number (Float q_water)) result;
               result = AList.update ''Total Q'' (Number (Float (q_oil + q_water))) result;
               gas_t = get0 (GAS_T e)
           in case GAS_DP e of
                None \<Rightarrow> Inl KeyError
              | Some hw \<Rightarrow>
                  (let q_gas = calculate_gas_flow hw sep_p gas_t (sg_gas params)
                                 (orifice_diameter params) (line_bore params)
                                 (h2s params) (co2 params);
                       result = AList.update ''Q Gas'' (Number q_gas) result
                   in bnd (gor1_of q_gas q_oil) (\<lambda>gor1.
                      (let result = AList.update ''GOR1'' (Number gor1) result;
                           result = AList.update ''GOR2'' (Number gor2) result;
                           result = AList.update ''Total GOR'' (Number (add_num gor1 gor2)) result
                       in if production_type params = ''GAS LIFT'' then
                            (let q_gas_inj = get0 (Q_Gas_Inj e);
                                 result = AList.update ''Q Gas Inj'' (Number (Float q_gas_inj)) result;
                                 (formation_gas, gor1_formation, total_gor_formation) =
                                   calculate_for_gas_lift q_gas q_gas_inj q_oil gor2;
                                 result = AList.update ''Formation Gas''
                                            (Number (Float formation_gas)) result;
                                 result = AList.update ''GOR1 Formation''
                                            (Number (Float gor1_formation)) result;
                                 result = AList.update ''Total GOR Formation''
                                            (Number total_gor_formation) result
                             in Inr (prev', result))
                          else Inr (prev', result))))))"

text \<open>The loop itself: entries in list order, the meters threaded through, rows appended.\<close>

fun process_entries :: "parameters \<Rightarrow> meters \<Rightarrow> entry list \<Rightarrow> exn + row list" where
  "process_entries params prev [] = Inr []"
| "process_entries params prev (e # es) =
     bnd (process_entry params prev e) (\<lambda>(prev', r).
     bnd (process_entries params prev' es) (\<lambda>rs. Inr (r # rs)))"

text \<open>The meters carried into the entry at position \<open>i\<close> (those after the first \<open>i\<close> entries).\<close>

fun meters_after :: "parameters \<Rightarrow> meters \<Rightarrow> entry list \<Rightarrow> meters" where
  "meters_after params prev [] = prev"
| "meters_after params prev (e # es) =
     meters_after params (snd (volume_differences params prev e)) es"

definition initial_meters :: meters where
  "initial_meters = \<lparr>prev_meter_oil = 0, prev_meter_water = 0, prev_meter_liquid = 0\<rparr>"

text \<open>
  \<^verbatim>\<open>calculate_averages\<close>. \<^verbatim>\<open>[r[key] for r in results]\<close> raises \<^verbatim>\<open>KeyError\<close> at the first row
  without the key; \<^verbatim>\<open>sum\<close> raises \<^verbatim>\<open>TypeError\<close> on a string. With no results the method
  returns before it touches \<^verbatim>\<open>current_project["averages"]\<close>.
\<close>

fun column :: "row list \<Rightarrow> string \<Rightarrow> exn + cell list" where
  "column [] key = Inr []"
| "column (r # rs) key =
     (case map_of r key of
        None \<Rightarrow> Inl KeyError
      | Some v \<Rightarrow> bnd (column rs key) (\<lambda>vs. Inr (v # vs)))"

fun sum_cells :: "pynum \<Rightarrow> cell list \<Rightarrow> exn + pynum" where
  "sum_cells acc [] = Inr acc"
| "sum_cells acc (Number v # vs) = sum_cells (add_num acc v) vs"
| "sum_cells acc (Text t # vs) = Inl TypeError"

fun average_keys ::
  "row list \<Rightarrow> string list \<Rightarrow> (string \<times> pynum) list \<Rightarrow> exn + (string \<times> pynum) list" where
  "average_keys rs [] averages = Inr averages"
| "average_keys rs (key # keys) averages =
     (if key \<noteq> ''Time'' then
        bnd (column rs key) (\<lambda>values.
        bnd (sum_cells (Float 0) values) (\<lambda>total.
        bnd (num_div total (real (length values))) (\<lambda>mean.
        average_keys rs keys (AList.update key mean averages))))
      else average_keys rs keys averages)"

text \<open>\<^verbatim>\<open>current_project\<close>, with the keys the engine reads and writes.\<close>

record project =
  project_parameters :: parameters
  time_series :: "entry list"
  results :: "row list"
  averages :: "(string \<times> pynum) list"

definition calculate_averages :: "project \<Rightarrow> exn + project" where
  "calculate_averages proj =
     (case results proj of
        [] \<Rightarrow> Inr proj
      | r # rs \<Rightarrow>
          bnd (average_keys (r # rs) (map fst r) [])
            (\<lambda>avgs. Inr (proj\<lparr>averages := avgs\<rparr>)))"

definition perform_calculations :: "project \<Rightarrow> exn + project" where
  "perform_calculations proj =
     bnd (process_entries (project_parameters proj) initial_meters (time_series proj))
       (\<lambda>rs. calculate_averages (proj\<lparr>results := rs\<rparr>))"

section \<open>A reference scenario\<close>

text \<open>
  The two-phase scenario of the specification's testable properties: API 30 observed at
  15.5 C, gas gravity 0.65, meter factor 1, automatic GOR2 method, and one entry with
  50 bbl on the liquid meter, 10 percent BSW, 100 psig and 20 C at the separator, 50 inH2O
  of differential and gas at 25 C. The orifice is 2 in a 4 inch line, without sour gas.
\<close>

definition scenario_parameters :: parameters where
  "scenario_parameters =
     \<lparr>oil_api = 30, oil_temp = 15.5, meter_factor = 1,
      production_type = ''NATURAL FLOW'', separation_type = ''TWO PHASES'',
      gor2_method = ''API'', line_bore = 4, h2s = 0, co2 = 0,
      orifice_diameter = 2, sg_gas = 0.65\<rparr>"

definition scenario_entry :: entry where
  "scenario_entry =
     \<lparr>Time = Some ''00:30'', Meter_Oil = None, Meter_Water = None, WIO = None,
      Meter_Liquid = Some 50, BSW = Some 10, Oil_T = Some 20, SEP_P = Some 100,
      GAS_T = Some 25, GAS_DP = Some 50, Q_Gas_Inj = None\<rparr>"


text \<open>
  The keys of a result row, in the order the loop writes them (lines 1543 to 1625); the
  last four only under gas lift.
\<close>

definition result_keys :: "parameters \<Rightarrow> string list" where
  "result_keys params =
     [''Time'', ''Q Oil'', ''Q Water'', ''Total Q'', ''Q Gas'', ''GOR1'', ''GOR2'', ''Total GOR'']
     @ (if production_type params = ''GAS LIFT''
        then [''Q Gas Inj'', ''Formation Gas'', ''GOR1 Formation'', ''Total GOR Formation'']
        else [])"


text \<open>The number, and the float, a row holds under a key, to state a mean over rows.\<close>

fun num_of :: "cell option \<Rightarrow> pynum" where
  "num_of (Some (Number v)) = v"
| "num_of _ = Float 0"

fun float_of :: "cell option \<Rightarrow> real" where
  "float_of (Some (Number (Float x))) = x"
| "float_of _ = 0"

section \<open>Properties of the correlations\<close>

text \<open>
  C4: on a float \<^verbatim>\<open>gor2\<close> the shrinkage factor is \<open>1 - c * gor2 * sep_p\<close>, where the
  coefficient is 5e-8 for a low GOR together with a low pressure, else 1e-7 for a low
  GOR, else 2e-7 for a low pressure, and otherwise follows the API tier (above 35,
  from 25 to 35, below 25). For API 40, GOR 50 and 30 psig the combined branch is taken.
\<close>

theorem shrinkage_factor_tiers:
  "calculate_shrinkage_factor (Float gor2) sep_p api60 =
     1 - (if gor2 < 100 \<and> sep_p < 50 then 0.00000005
          else if gor2 < 100 then 0.0000001
          else if sep_p < 50 then 0.0000002
          else if api60 > 35 then 0.00000025
          else if api60 < 25 then 0.00000035
          else 0.0000003) * gor2 * sep_p
   \<and> calculate_shrinkage_factor (Float 50) 30 40 = 1 - 0.00000005 * 50 * 30"
  by (simp add: calculate_shrinkage_factor_def Let_def)

text \<open>
  C7: the formation gas returned for gas lift is \<open>max (q_gas - q_gas_inj) 0\<close>, it is never
  negative (also when the block fails on a complex rate), and for a rate of 500 against
  800 injected it is 0.
\<close>

theorem formation_gas_clamped:
  "fst (calculate_for_gas_lift (Float q_gas) q_gas_inj q_oil gor2) = max (q_gas - q_gas_inj) 0
   \<and> 0 \<le> fst (calculate_for_gas_lift q q_gas_inj q_oil gor2)
   \<and> fst (calculate_for_gas_lift (Float 500) 800 q_oil gor2) = 0"
  by (cases q) (simp_all add: calculate_for_gas_lift_def gas_lift_body_def float_div_def Let_def)

text \<open>
  C9: the volume correction factor is \<open>exp (- (alpha * dt + beta * dt\<^sup>2))\<close> with
  \<open>dt\<close> the separator temperature in Fahrenheit less 60, \<open>alpha = 0.00034878 - 0.00000091 * api60\<close>
  and \<open>beta = 2.5e-9\<close>; it is 1 when the temperature converts to 60 F, and lies in
  \<open>(0, 1]\<close> when \<open>dt\<close> is not negative and \<open>alpha\<close> is positive.
\<close>

theorem vcf_sep_formula_range:
  "calculate_vcf_sep sep_temp api60 =
     exp (- ((0.00034878 - 0.00000091 * api60) * (sep_temp * 9 / 5 + 32 - 60)
             + 0.0000000025 * (sep_temp * 9 / 5 + 32 - 60)\<^sup>2))
   \<and> (sep_temp * 9 / 5 + 32 = 60 \<longrightarrow> calculate_vcf_sep sep_temp api60 = 1)
   \<and> (0 \<le> sep_temp * 9 / 5 + 32 - 60 \<and> 0 < 0.00034878 - 0.00000091 * api60 \<longrightarrow>
        0 < calculate_vcf_sep sep_temp api60 \<and> calculate_vcf_sep sep_temp api60 \<le> 1)"
proof (intro conjI impI)
  show "calculate_vcf_sep sep_temp api60 =
     exp (- ((0.00034878 - 0.00000091 * api60) * (sep_temp * 9 / 5 + 32 - 60)
             + 0.0000000025 * (sep_temp * 9 / 5 + 32 - 60)\<^sup>2))"
    by (simp add: calculate_vcf_sep_def Let_def)
next
  assume "sep_temp * 9 / 5 + 32 = 60"
  then show "calculate_vcf_sep sep_temp api60 = 1"
    by (simp add: calculate_vcf_sep_def Let_def)
next
  assume h: "0 \<le> sep_temp * 9 / 5 + 32 - 60 \<and> 0 < 0.00034878 - 0.00000091 * api60"
  show "0 < calculate_vcf_sep sep_temp api60"
    by (simp add: calculate_vcf_sep_def Let_def)
  have "0 \<le> (0.00034878 - 0.00000091 * api60) * (sep_temp * 9 / 5 + 32 - 60)"
    using h by (intro mult_nonneg_nonneg) auto
  moreover have "0 \<le> 0.0000000025 * (sep_temp * 9 / 5 + 32 - 60)\<^sup>2"
    by simp
  ultimately have "0 \<le> (0.00034878 - 0.00000091 * api60) * (sep_temp * 9 / 5 + 32 - 60)
      + 0.0000000025 * (sep_temp * 9 / 5 + 32 - 60)\<^sup>2"
    by linarith
  then show "calculate_vcf_sep sep_temp api60 \<le> 1"
    by (simp add: calculate_vcf_sep_def Let_def)
qed

theorem vcf_sep_formula_range_witness:
  "calculate_vcf_sep (140 / 9) 30 = 1
   \<and> 0 < calculate_vcf_sep 20 30 \<and> calculate_vcf_sep 20 30 \<le> 1"
  using vcf_sep_formula_range [of "140 / 9" 30] vcf_sep_formula_range [of 20 30]
  by simp

section \<open>The GOR2 correlations and their unit conversions\<close>

text \<open>On a positive absolute pressure the correlations are plain real expressions.\<close>

lemma standings_value:
  "0 < sep_p + 14.7 \<Longrightarrow>
   standings sg sep_p api60 sep_temp =
     Float (sg * ((sep_p + 14.7) * 10 powr (0.0125 * api60 - 0.00091 * sep_temp) / 18.2) powr 1.204)"
  by (simp add: standings_def Let_def float_pow_def)

lemma vasquez_beggs_value:
  "0 < sep_p + 14.7 \<Longrightarrow> sep_temp * 9 / 5 + 32 + 460 \<noteq> 0 \<Longrightarrow>
   vasquez_beggs sg sep_p api60 sep_temp c1 c2 c3 =
     Float (sg * c1 * (sep_p + 14.7) powr c2 * exp (c3 * api60 / (sep_temp * 9 / 5 + 32 + 460)))"
  by (simp add: vasquez_beggs_def Let_def float_pow_def float_div_def)

text \<open>
  C3: with the method \<^verbatim>\<open>STANDINGS\<close>, API 30, gas gravity 0.65, 100 psig and 20 C,
  \<^verbatim>\<open>calculate_gor2\<close> returns Standing's expression on the pressure \<open>100 + 14.7 + 14.7\<close>:
  the body converts to psia and \<^verbatim>\<open>_standings\<close> converts again. The value differs from
  the expression on \<open>100 + 14.7\<close>, the pressure converted once.
\<close>

theorem gor2_standings_converts_pressure_twice:
  "calculate_gor2 30 0.65 100 20 ''STANDINGS'' =
     Float (0.65 * ((100 + 14.7 + 14.7) * 10 powr (0.0125 * 30 - 0.00091 * 68) / 18.2) powr 1.204)
   \<and> calculate_gor2 30 0.65 100 20 ''STANDINGS'' \<noteq>
     Float (0.65 * ((100 + 14.7) * 10 powr (0.0125 * 30 - 0.00091 * 68) / 18.2) powr 1.204)"
proof -
  have v: "calculate_gor2 30 0.65 100 20 ''STANDINGS'' =
     Float (0.65 * ((100 + 14.7 + 14.7) * 10 powr (0.0125 * 30 - 0.00091 * 68) / 18.2) powr 1.204)"
    by (simp add: calculate_gor2_def Let_def standings_value)
  have "(114.7::real) * 10 powr (0.0125 * 30 - 0.00091 * 68) / 18.2
        < 129.4 * 10 powr (0.0125 * 30 - 0.00091 * 68) / 18.2"
    by (simp add: divide_strict_right_mono)
  then have "((114.7::real) * 10 powr (0.0125 * 30 - 0.00091 * 68) / 18.2) powr 1.204
        < (129.4 * 10 powr (0.0125 * 30 - 0.00091 * 68) / 18.2) powr 1.204"
    by (intro powr_less_mono2) simp_all
  then show ?thesis
    unfolding v by simp
qed

text \<open>
  The explicit branch sees a higher pressure and a higher temperature than the
  automatic one; the first raises the result by less than the second lowers it.
\<close>

lemma vb_gap:
  "(0.65::real) * 0.0178 * (100 + 14.7 + 14.7 + 14.7) powr 1.187 * exp (23.931 * 40 / (309.92 + 460))
     < 0.65 * 0.0178 * (100 + 14.7 + 14.7) powr 1.187 * exp (23.931 * 40 / (154.4 + 460))"
proof -
  define r :: real where "r = 144.1 / 129.4"
  define a1 :: real where "a1 = 23.931 * 40 / (154.4 + 460)"
  define a2 :: real where "a2 = 23.931 * 40 / (309.92 + 460)"
  define b :: real where "b = 129.4 powr 1.187"
  have r1: "1 \<le> r" by (simp add: r_def)
  have b0: "0 < b" by (simp add: b_def)
  have "(129.4 * r) powr 1.187 = 129.4 powr 1.187 * r powr 1.187"
    by (rule powr_mult)
  moreover have "129.4 * r = (100 + 14.7 + 14.7 + 14.7 :: real)" by (simp add: r_def)
  ultimately have e1: "(100 + 14.7 + 14.7 + 14.7 :: real) powr 1.187 = b * r powr 1.187"
    by (simp only: b_def)
  have e2: "(100 + 14.7 + 14.7 :: real) powr 1.187 = b" by (simp add: b_def)
  have "r powr 1.187 \<le> r powr 2"
    using r1 by (intro powr_mono) simp_all
  also have "\<dots> = r\<^sup>2" using r1 by simp
  also have "\<dots> < 1 + (a1 - a2)" by (simp add: r_def a1_def a2_def power2_eq_square)
  also have "\<dots> \<le> exp (a1 - a2)" by (rule exp_ge_add_one_self)
  finally have "r powr 1.187 < exp (a1 - a2)" .
  then have "r powr 1.187 * exp a2 < exp (a1 - a2) * exp a2"
    by (rule mult_strict_right_mono) simp
  also have "\<dots> = exp a1" by (simp add: exp_diff)
  finally have lt: "r powr 1.187 * exp a2 < exp a1" .
  have "b * (r powr 1.187 * exp a2) < b * exp a1"
    by (rule mult_strict_left_mono [OF lt b0])
  then have "0.65 * 0.0178 * (b * (r powr 1.187 * exp a2)) < 0.65 * 0.0178 * (b * exp a1)"
    by (rule mult_strict_left_mono) simp
  then have "0.65 * 0.0178 * (b * r powr 1.187) * exp a2 < 0.65 * 0.0178 * b * exp a1"
    by (simp only: mult.assoc)
  then show ?thesis
    by (simp only: e1 e2 a1_def a2_def)
qed

text \<open>
  C2: at API 40, gas gravity 0.65, 100 psig and 20 C the automatic method evaluates
  Vasquez-Beggs on \<open>100 + 2 * 14.7\<close> psia and the temperature converted twice, the explicit
  method \<^verbatim>\<open>VASQUEZ_BEGGS\<close> on \<open>100 + 3 * 14.7\<close> psia and the temperature converted three
  times, with the same coefficients: the two results differ.
\<close>

theorem gor2_auto_differs_from_vasquez_beggs:
  "calculate_gor2 40 0.65 100 20 ''API'' =
     Float (0.65 * 0.0178 * (100 + 14.7 + 14.7) powr 1.187 * exp (23.931 * 40 / (154.4 + 460)))
   \<and> calculate_gor2 40 0.65 100 20 ''VASQUEZ_BEGGS'' =
     Float (0.65 * 0.0178 * (100 + 14.7 + 14.7 + 14.7) powr 1.187 * exp (23.931 * 40 / (309.92 + 460)))
   \<and> calculate_gor2 40 0.65 100 20 ''API'' \<noteq> calculate_gor2 40 0.65 100 20 ''VASQUEZ_BEGGS''"
proof -
  define A :: real where
    "A = 0.65 * 0.0178 * (100 + 14.7 + 14.7) powr 1.187 * exp (23.931 * 40 / (154.4 + 460))"
  define B :: real where
    "B = 0.65 * 0.0178 * (100 + 14.7 + 14.7 + 14.7) powr 1.187 * exp (23.931 * 40 / (309.92 + 460))"
  have a: "calculate_gor2 40 0.65 100 20 ''API'' = Float A"
    by (simp add: calculate_gor2_def Let_def vasquez_beggs_value A_def)
  have b: "calculate_gor2 40 0.65 100 20 ''VASQUEZ_BEGGS'' = Float B"
    by (simp add: calculate_gor2_def Let_def vasquez_beggs_value B_def)
  have "B < A" unfolding A_def B_def by (rule vb_gap)
  then have "Float A \<noteq> Float B" by simp
  then show ?thesis
    unfolding a b unfolding A_def B_def by simp
qed

section \<open>The orifice equation at zero differential\<close>

lemma gor1_of_total: "gor1_of q o' = Inr (if o' > 0 then map_num (\<lambda>x. x * 1000 / o') q else Float 0)"
  by (cases q) (simp_all add: gor1_of_def num_div_def)

text \<open>
  C10: with no differential head, a bore above the orifice diameter, both positive, a
  positive gas gravity, a gas temperature above -460 and a gauge pressure that is not
  negative, the \<^verbatim>\<open>try\<close> block of \<^verbatim>\<open>calculate_gas_flow\<close> raises nothing and returns 0, the
  expansion factor is 1, and GOR1 is 0 for every oil rate.
\<close>

theorem zero_differential_zero_gas_rate:
  assumes "0 < bore" and "0 < d" and "d < bore" and "0 < sg" and "- 460 < gas_t" and "0 \<le> sep_p"
  shows "gas_flow_body 0 sep_p gas_t sg d bore h2s' co2' = Inr (Float 0)
    \<and> expansion_factor (d / bore) (0 * 0.03613) (sep_p + 14.7 + 0 * 0.03613) = Inr 1
    \<and> calculate_gas_flow 0 sep_p gas_t sg d bore h2s' co2' = Float 0
    \<and> gor1_of (calculate_gas_flow 0 sep_p gas_t sg d bore h2s' co2') q_oil = Inr (Float 0)"
proof -
  define beta where "beta = d / bore"
  have b0: "0 < beta" and b1: "beta < 1"
    using assms by (simp_all add: beta_def)
  have "beta ^ 4 < 1 ^ 4"
    using b0 b1 by (intro power_strict_mono) simp_all
  then have s1: "0 < 1 - beta ^ 4" by simp
  have bore: "bore \<noteq> 0" using assms by simp
  have y2: "expansion_factor beta 0 (sep_p + 14.7) = Inr 1"
    using assms by (simp add: expansion_factor_def float_div_def)
  have body: "gas_flow_body 0 sep_p gas_t sg d bore h2s' co2' = Inr (Float 0)"
    using assms b0 s1 y2 bore
    by (simp add: gas_flow_body_def float_div_def float_pow_def math_sqrt_def num_div_def
        Let_def beta_def [symmetric])
  then have flow: "calculate_gas_flow 0 sep_p gas_t sg d bore h2s' co2' = Float 0"
    by (simp add: calculate_gas_flow_def)
  show ?thesis
    using body y2 flow by (simp add: gor1_of_total beta_def)
qed

theorem zero_differential_zero_gas_rate_witness:
  "gas_flow_body 0 100 25 0.65 2 4 0 0 = Inr (Float 0)
    \<and> expansion_factor (2 / 4) (0 * 0.03613) (100 + 14.7 + 0 * 0.03613) = Inr 1
    \<and> calculate_gas_flow 0 100 25 0.65 2 4 0 0 = Float 0
    \<and> gor1_of (calculate_gas_flow 0 100 25 0.65 2 4 0 0) 2000 = Inr (Float 0)"
  using zero_differential_zero_gas_rate [of 4 2 "0.65" 25 100 0 0 2000]
  by (simp add: gor1_of_total)

section \<open>One entry of the time series\<close>

text \<open>
  What \<open>process_entry\<close> writes into the row of an entry that has a time label and a
  differential pressure, in the source's own intermediate quantities.
\<close>

lemma process_entry_cells:
  fixes params prev e t hw
  defines "oil_api_60f \<equiv> calculate_oil_api_60f (oil_temp params) (oil_api params)"
  defines "sep_temp \<equiv> get0 (Oil_T e)" and "sep_p \<equiv> get0 (SEP_P e)"
  defines "gor2 \<equiv> calculate_gor2 oil_api_60f (sg_gas params) sep_p sep_temp (gor2_method params)"
  defines "sf \<equiv> calculate_shrinkage_factor gor2 sep_p oil_api_60f"
  defines "vcf \<equiv> calculate_vcf_sep sep_temp oil_api_60f"
  defines "q \<equiv> flow_rates params (fst (volume_differences params prev e)) sf vcf"
  defines "q_gas \<equiv> calculate_gas_flow hw sep_p (get0 (GAS_T e)) (sg_gas params)
                       (orifice_diameter params) (line_bore params) (h2s params) (co2 params)"
  defines "lift \<equiv> calculate_for_gas_lift q_gas (get0 (Q_Gas_Inj e)) (fst q) gor2"
  assumes "Time e = Some t" and "GAS_DP e = Some hw"
  shows "\<exists>row. process_entry params prev e = Inr (snd (volume_differences params prev e), row)
     \<and> map_of row ''Q Oil'' = Some (Number (Float (fst q)))
     \<and> map_of row ''Q Water'' = Some (Number (Float (snd q)))
     \<and> map_of row ''Q Gas'' = Some (Number q_gas)
     \<and> map_of row ''GOR1'' =
         Some (Number (if fst q > 0 then map_num (\<lambda>x. x * 1000 / fst q) q_gas else Float 0))
     \<and> map_of row ''GOR2'' = Some (Number gor2)
     \<and> (production_type params = ''GAS LIFT'' \<longrightarrow>
          map_of row ''Formation Gas'' = Some (Number (Float (fst lift)))
        \<and> map_of row ''GOR1 Formation'' = Some (Number (Float (fst (snd lift)))))"
  using assms(10,11) unfolding assms(1-9)
  by (simp add: process_entry_def Let_def case_prod_beta gor1_of_total)

lemma process_entry_no_zero_division: "process_entry params prev e \<noteq> Inl ZeroDivisionError"
  by (simp add: process_entry_def Let_def case_prod_beta gor1_of_total
      split: option.splits)

lemma gas_lift_gor1_formation:
  "fst (snd (calculate_for_gas_lift qg qi qo g2)) =
     (if qo > 0 then fst (calculate_for_gas_lift qg qi qo g2) * 1000 / qo else 0)"
  by (cases qg) (simp_all add: calculate_for_gas_lift_def gas_lift_body_def float_div_def Let_def)

text \<open>
  C6: GOR1 is the gas rate times 1000 over the oil rate when the oil rate is positive
  and 0 otherwise, and so is the formation GOR1 under gas lift; the division is never
  reached with a zero oil rate, so no entry ends in \<^verbatim>\<open>ZeroDivisionError\<close>. The row of
  an entry relates its cells \<^verbatim>\<open>Q Oil\<close>, \<^verbatim>\<open>Q Gas\<close>, \<^verbatim>\<open>GOR1\<close>, \<^verbatim>\<open>Formation Gas\<close> and
  \<^verbatim>\<open>GOR1 Formation\<close> in this way.
\<close>

theorem gor1_division_guarded:
  "process_entry params prev e \<noteq> Inl ZeroDivisionError
   \<and> gor1_of q_gas q_oil =
       Inr (if q_oil > 0 then map_num (\<lambda>x. x * 1000 / q_oil) q_gas else Float 0)
   \<and> gas_lift_body q_gas q_gas_inj q_oil gor2 \<noteq> Inl ZeroDivisionError
   \<and> fst (snd (calculate_for_gas_lift (Float g) q_gas_inj q_oil gor2)) =
       (if q_oil > 0 then max (g - q_gas_inj) 0 * 1000 / q_oil else 0)
   \<and> (Time e = Some t \<and> GAS_DP e = Some hw \<longrightarrow>
        (\<exists>prev' row qo qg.
           process_entry params prev e = Inr (prev', row)
         \<and> map_of row ''Q Oil'' = Some (Number (Float qo))
         \<and> map_of row ''Q Gas'' = Some (Number qg)
         \<and> map_of row ''GOR1'' =
             Some (Number (if qo > 0 then map_num (\<lambda>x. x * 1000 / qo) qg else Float 0))
         \<and> (production_type params = ''GAS LIFT'' \<longrightarrow>
              (\<exists>fg. map_of row ''Formation Gas'' = Some (Number (Float fg))
                 \<and> map_of row ''GOR1 Formation'' =
                     Some (Number (Float (if qo > 0 then fg * 1000 / qo else 0)))))))"
proof (intro conjI impI)
  show "process_entry params prev e \<noteq> Inl ZeroDivisionError"
    by (rule process_entry_no_zero_division)
  show "gor1_of q_gas q_oil =
       Inr (if q_oil > 0 then map_num (\<lambda>x. x * 1000 / q_oil) q_gas else Float 0)"
    by (rule gor1_of_total)
  show "gas_lift_body q_gas q_gas_inj q_oil gor2 \<noteq> Inl ZeroDivisionError"
    by (cases q_gas) (simp_all add: gas_lift_body_def float_div_def Let_def)
  show "fst (snd (calculate_for_gas_lift (Float g) q_gas_inj q_oil gor2)) =
       (if q_oil > 0 then max (g - q_gas_inj) 0 * 1000 / q_oil else 0)"
    by (simp add: calculate_for_gas_lift_def gas_lift_body_def float_div_def Let_def)
next
  assume "Time e = Some t \<and> GAS_DP e = Some hw"
  then have k: "Time e = Some t" "GAS_DP e = Some hw" by simp_all
  show "\<exists>prev' row qo qg.
           process_entry params prev e = Inr (prev', row)
         \<and> map_of row ''Q Oil'' = Some (Number (Float qo))
         \<and> map_of row ''Q Gas'' = Some (Number qg)
         \<and> map_of row ''GOR1'' =
             Some (Number (if qo > 0 then map_num (\<lambda>x. x * 1000 / qo) qg else Float 0))
         \<and> (production_type params = ''GAS LIFT'' \<longrightarrow>
              (\<exists>fg. map_of row ''Formation Gas'' = Some (Number (Float fg))
                 \<and> map_of row ''GOR1 Formation'' =
                     Some (Number (Float (if qo > 0 then fg * 1000 / qo else 0)))))"
    using k
    by (simp add: process_entry_def Let_def case_prod_beta gor1_of_total
        gas_lift_gor1_formation)
qed

theorem gor1_division_guarded_witness:
  "\<exists>prev' row.
     process_entry (scenario_parameters\<lparr>production_type := ''GAS LIFT''\<rparr>) initial_meters
       (scenario_entry\<lparr>Meter_Liquid := None\<rparr>) = Inr (prev', row)
   \<and> map_of row ''Q Oil'' = Some (Number (Float 0))
   \<and> map_of row ''GOR1'' = Some (Number (Float 0))
   \<and> map_of row ''GOR1 Formation'' = Some (Number (Float 0))"
proof -
  let ?P = "scenario_parameters\<lparr>production_type := ''GAS LIFT''\<rparr>"
  let ?E = "scenario_entry\<lparr>Meter_Liquid := None\<rparr>"
  have k: "Time ?E = Some ''00:30''" "GAS_DP ?E = Some 50"
    by (simp_all add: scenario_entry_def)
  have lift: "production_type ?P = ''GAS LIFT''" by simp
  from gor1_division_guarded [of ?P initial_meters ?E _ _ _ _ _ "''00:30''" 50] k lift
  obtain prev' row qo qg fg where
    r: "process_entry ?P initial_meters ?E = Inr (prev', row)"
    and o: "map_of row ''Q Oil'' = Some (Number (Float qo))"
    and g: "map_of row ''GOR1'' =
             Some (Number (if qo > 0 then map_num (\<lambda>x. x * 1000 / qo) qg else Float 0))"
    and f: "map_of row ''GOR1 Formation'' =
             Some (Number (Float (if qo > 0 then fg * 1000 / qo else 0)))"
    by blast
  from process_entry_cells [OF k, of ?P initial_meters] r
  have "map_of row ''Q Oil'' = Some (Number (Float 0))"
    by (simp add: flow_rates_def volume_differences_def calculate_two_phase_flow_def
        scenario_parameters_def scenario_entry_def initial_meters_def)
  with o have "qo = 0" by simp
  with r o g f show ?thesis by simp
qed

text \<open>
  C1: in the reference scenario \<^verbatim>\<open>perform_calculations\<close> calls
  \<^verbatim>\<open>calculate_oil_api_60f(params["oil_temp"], params["oil_api"])\<close>: the temperature 15.5
  is corrected as if it were the gravity, observed at 30 C, which gives 15.44995. The
  function applied to gravity and temperature in its own parameter order gives 30. The
  row's GOR2 is computed from 15.44995, which selects Katz where 30 selects Standing.
\<close>

theorem oil_api_arguments_swapped:
  "calculate_oil_api_60f (oil_temp scenario_parameters) (oil_api scenario_parameters) = 15.44995
   \<and> calculate_oil_api_60f (oil_api scenario_parameters) (oil_temp scenario_parameters) = 30
   \<and> (\<exists>prev' row.
        process_entry scenario_parameters initial_meters scenario_entry = Inr (prev', row)
      \<and> map_of row ''GOR2'' = Some (Number (calculate_gor2 15.44995 0.65 100 20 ''API'')))
   \<and> calculate_gor2 15.44995 0.65 100 20 ''API'' = katz 0.65 (100 + 14.7) 15.44995 68
   \<and> calculate_gor2 30 0.65 100 20 ''API'' = standings 0.65 (100 + 14.7) 30 68"
proof (intro conjI)
  show a: "calculate_oil_api_60f (oil_temp scenario_parameters) (oil_api scenario_parameters) = 15.44995"
    by (simp add: calculate_oil_api_60f_def scenario_parameters_def Let_def)
  show "calculate_oil_api_60f (oil_api scenario_parameters) (oil_temp scenario_parameters) = 30"
    by (simp add: calculate_oil_api_60f_def scenario_parameters_def Let_def)
  have k: "Time scenario_entry = Some ''00:30''" "GAS_DP scenario_entry = Some 50"
    by (simp_all add: scenario_entry_def)
  have v: "sg_gas scenario_parameters = 0.65" "gor2_method scenario_parameters = ''API''"
    "get0 (SEP_P scenario_entry) = 100" "get0 (Oil_T scenario_entry) = 20"
    by (simp_all add: scenario_parameters_def scenario_entry_def)
  from process_entry_cells [OF k, of scenario_parameters initial_meters]
  show "\<exists>prev' row.
        process_entry scenario_parameters initial_meters scenario_entry = Inr (prev', row)
      \<and> map_of row ''GOR2'' = Some (Number (calculate_gor2 15.44995 0.65 100 20 ''API''))"
    unfolding a v by blast
  show "calculate_gor2 15.44995 0.65 100 20 ''API'' = katz 0.65 (100 + 14.7) 15.44995 68"
    by (simp add: calculate_gor2_def Let_def)
  show "calculate_gor2 30 0.65 100 20 ''API'' = standings 0.65 (100 + 14.7) 30 68"
    by (simp add: calculate_gor2_def Let_def)
qed

section \<open>The loop over the time series\<close>

text \<open>
  A gauge pressure above -14.7 keeps every correlation on a positive base, so GOR2 is a
  float and the shrinkage factor is computed from it.
\<close>

lemma katz_value:
  "0 < sep_p + 14.7 \<Longrightarrow>
   katz sg sep_p api60 sep_temp =
     Float (0.224 * sg * (sep_p + 14.7) powr 1.182 * 10 powr (0.01245 * api60 - 0.00091 * sep_temp))"
  by (simp add: katz_def Let_def float_pow_def)

lemma vasquez_beggs_is_float:
  assumes "0 < sep_p + 14.7"
  shows "\<exists>g. vasquez_beggs sg sep_p a T c1 c2 c3 = Float g"
proof (cases "T * 9 / 5 + 32 + 460 = 0")
  case True
  then have "vasquez_beggs sg sep_p a T c1 c2 c3 = Float 0"
    using assms by (simp add: vasquez_beggs_def Let_def float_pow_def float_div_def)
  then show ?thesis by blast
next
  case False
  from vasquez_beggs_value [OF assms False] show ?thesis by blast
qed

lemma if_is_float:
  "(\<exists>g. x = Float g) \<Longrightarrow> (\<exists>g. y = Float g) \<Longrightarrow> \<exists>g. (if c then x else y) = Float g"
  by simp

lemma gor2_is_float:
  assumes "0 < sep_p + 14.7"
  shows "\<exists>g. calculate_gor2 a sg sep_p T m = Float g"
proof -
  have p1: "0 < (sep_p + 14.7) + 14.7" and p2: "0 < (sep_p + 14.7 + 14.7) + 14.7"
    using assms by simp_all
  have s: "\<And>T'. \<exists>g. standings sg (sep_p + 14.7) a T' = Float g"
    using standings_value [OF p1] by blast
  have k: "\<And>T'. \<exists>g. katz sg (sep_p + 14.7) a T' = Float g"
    using katz_value [OF p1] by blast
  have z: "\<exists>g. Float 0 = Float g" by blast
  show ?thesis
    unfolding calculate_gor2_def Let_def
    by (intro if_is_float vasquez_beggs_is_float [OF p1] vasquez_beggs_is_float [OF p2] s k z)
qed

text \<open>
  The meters carried into position \<open>i\<close> are those left by the entry before it; the loop
  visits the entries in order and fails only on a missing key.
\<close>

lemma meters_after_append:
  "meters_after p prev (xs @ ys) = meters_after p (meters_after p prev xs) ys"
  by (induction xs arbitrary: prev) simp_all

lemma meters_after_take_Suc:
  "i < length es \<Longrightarrow>
   meters_after p prev (take (Suc i) es) =
     snd (volume_differences p (meters_after p prev (take i es)) (es ! i))"
  by (simp add: take_Suc_conv_app_nth meters_after_append)

lemma process_entries_rows:
  assumes "\<forall>e\<in>set es. Time e \<noteq> None \<and> GAS_DP e \<noteq> None"
  shows "\<exists>rows. process_entries p prev es = Inr rows \<and> length rows = length es \<and>
     (\<forall>i<length es. process_entry p (meters_after p prev (take i es)) (es ! i) =
         Inr (meters_after p prev (take (Suc i) es), rows ! i))"
  using assms
proof (induction es arbitrary: prev)
  case Nil
  then show ?case by simp
next
  case (Cons e es)
  from Cons.prems obtain t hw where k: "Time e = Some t" "GAS_DP e = Some hw" by auto
  from process_entry_cells [OF k, of p prev]
  obtain row where r: "process_entry p prev e = Inr (snd (volume_differences p prev e), row)"
    by blast
  from Cons.IH [of "snd (volume_differences p prev e)"] Cons.prems
  obtain rows where rs: "process_entries p (snd (volume_differences p prev e)) es = Inr rows"
    and len: "length rows = length es"
    and ix: "\<forall>i<length es.
       process_entry p (meters_after p (snd (volume_differences p prev e)) (take i es)) (es ! i) =
         Inr (meters_after p (snd (volume_differences p prev e)) (take (Suc i) es), rows ! i)"
    by auto
  have "process_entries p prev (e # es) = Inr (row # rows)"
    by (simp add: r rs)
  moreover have "\<forall>i<length (e # es).
       process_entry p (meters_after p prev (take i (e # es))) ((e # es) ! i) =
         Inr (meters_after p prev (take (Suc i) (e # es)), (row # rows) ! i)"
  proof (intro allI impI)
    fix i assume "i < length (e # es)"
    then show "process_entry p (meters_after p prev (take i (e # es))) ((e # es) ! i) =
         Inr (meters_after p prev (take (Suc i) (e # es)), (row # rows) ! i)"
      using r ix by (cases i) simp_all
  qed
  ultimately show ?case using len by simp
qed

lemma carried_meters:
  "i \<le> length es \<Longrightarrow>
   meters_after p initial_meters (take i es) =
     (if i = 0 then initial_meters
      else if separation_type p = ''THREE PHASES'' then
        \<lparr>prev_meter_oil = get0 (Meter_Oil (es ! (i - 1))),
         prev_meter_water = get0 (Meter_Water (es ! (i - 1))), prev_meter_liquid = 0\<rparr>
      else \<lparr>prev_meter_oil = 0, prev_meter_water = 0,
            prev_meter_liquid = get0 (Meter_Liquid (es ! (i - 1)))\<rparr>)"
proof (induction i)
  case 0
  then show ?case by simp
next
  case (Suc i)
  then have "i < length es" by simp
  then show ?case
    using Suc.IH
    by (simp add: meters_after_take_Suc volume_differences_def Let_def initial_meters_def)
qed


lemma vcf_sep_positive: "0 < calculate_vcf_sep sep_temp api60"
  by (simp add: calculate_vcf_sep_def Let_def)

lemma shrinkage_at_zero_gauge:
  "calculate_shrinkage_factor (calculate_gor2 a sg 0 T m) 0 a' = 1"
proof -
  from gor2_is_float [of 0 a sg T m] obtain g where "calculate_gor2 a sg 0 T m = Float g"
    by auto
  then show ?thesis by (simp add: calculate_shrinkage_factor_def Let_def)
qed

text \<open>
  C5: when every entry has its time label and differential pressure, the loop returns one
  row per entry, in order, whatever the meter readings are. The meters start at 0; those
  carried into entry \<open>i\<close> hold the readings of entry \<open>i - 1\<close>, the volume difference of
  entry \<open>i\<close> is its reading less the carried one (oil and water for three phases, liquid
  otherwise), and the meters carried out of entry \<open>i\<close> hold its readings. The oil rate of
  row \<open>i\<close> is that difference times the oil fraction, the meter factor, the shrinkage
  factor, the volume correction factor and 48: a falling reading gives a negative
  difference and a rate of its sign, not an error.
\<close>

theorem cumulative_meter_differencing:
  fixes params :: parameters and es :: "entry list"
  defines "carried \<equiv> \<lambda>i. meters_after params initial_meters (take i es)"
  defines "api \<equiv> calculate_oil_api_60f (oil_temp params) (oil_api params)"
  defines "sf \<equiv> \<lambda>e. calculate_shrinkage_factor
                      (calculate_gor2 api (sg_gas params) (get0 (SEP_P e)) (get0 (Oil_T e))
                         (gor2_method params))
                      (get0 (SEP_P e)) api"
  defines "vcf \<equiv> \<lambda>e. calculate_vcf_sep (get0 (Oil_T e)) api"
  defines "before \<equiv> \<lambda>(reading :: entry \<Rightarrow> real option) i.
                      if i = 0 then 0 else get0 (reading (es ! (i - 1)))"
  assumes present: "\<forall>e\<in>set es. Time e \<noteq> None \<and> GAS_DP e \<noteq> None"
  shows "\<exists>rows. process_entries params initial_meters es = Inr rows \<and> length rows = length es \<and>
    (\<forall>i<length es.
       process_entry params (carried i) (es ! i) = Inr (carried (Suc i), rows ! i)
     \<and> (if separation_type params = ''THREE PHASES'' then
          prev_meter_oil (carried i) = before Meter_Oil i
        \<and> prev_meter_water (carried i) = before Meter_Water i
        \<and> fst (volume_differences params (carried i) (es ! i)) =
            Three_phase (get0 (Meter_Oil (es ! i)) - before Meter_Oil i)
              (get0 (Meter_Water (es ! i)) - before Meter_Water i)
              (get0 (WIO (es ! i)) / 100)
        \<and> prev_meter_oil (carried (Suc i)) = get0 (Meter_Oil (es ! i))
        \<and> prev_meter_water (carried (Suc i)) = get0 (Meter_Water (es ! i))
        \<and> map_of (rows ! i) ''Q Oil'' =
            Some (Number (Float ((get0 (Meter_Oil (es ! i)) - before Meter_Oil i)
              * (1 - get0 (WIO (es ! i)) / 100) * meter_factor params
              * sf (es ! i) * vcf (es ! i) * 48)))
        else
          prev_meter_liquid (carried i) = before Meter_Liquid i
        \<and> fst (volume_differences params (carried i) (es ! i)) =
            Two_phase (get0 (Meter_Liquid (es ! i)) - before Meter_Liquid i)
              (get0 (BSW (es ! i)) / 100)
        \<and> prev_meter_liquid (carried (Suc i)) = get0 (Meter_Liquid (es ! i))
        \<and> map_of (rows ! i) ''Q Oil'' =
            Some (Number (Float ((get0 (Meter_Liquid (es ! i)) - before Meter_Liquid i)
              * (1 - get0 (BSW (es ! i)) / 100) * meter_factor params
              * sf (es ! i) * vcf (es ! i) * 48)))))"
  (is "\<exists>rows. _ \<and> _ \<and> (\<forall>i<length es. _ \<and> ?Q rows i)")
proof -
  from process_entries_rows [OF present, of params initial_meters]
  obtain rows where run: "process_entries params initial_meters es = Inr rows"
    and len: "length rows = length es"
    and step: "\<forall>i<length es.
       process_entry params (carried i) (es ! i) = Inr (carried (Suc i), rows ! i)"
    unfolding carried_def by blast
  have "?Q rows i" if i: "i < length es" for i
  proof -
    from i have mem: "es ! i \<in> set es" by simp
    with present obtain t hw where k: "Time (es ! i) = Some t" "GAS_DP (es ! i) = Some hw"
      by auto
    from step i have st: "process_entry params (carried i) (es ! i) = Inr (carried (Suc i), rows ! i)"
      by simp
    from process_entry_cells [OF k, of params "carried i"] st
    have oil: "map_of (rows ! i) ''Q Oil'' =
        Some (Number (Float (fst (flow_rates params
          (fst (volume_differences params (carried i) (es ! i))) (sf (es ! i)) (vcf (es ! i))))))"
      unfolding sf_def vcf_def api_def by auto
    have ci: "carried i =
       (if i = 0 then initial_meters
        else if separation_type params = ''THREE PHASES'' then
          \<lparr>prev_meter_oil = get0 (Meter_Oil (es ! (i - 1))),
           prev_meter_water = get0 (Meter_Water (es ! (i - 1))), prev_meter_liquid = 0\<rparr>
        else \<lparr>prev_meter_oil = 0, prev_meter_water = 0,
              prev_meter_liquid = get0 (Meter_Liquid (es ! (i - 1)))\<rparr>)"
      unfolding carried_def using i by (intro carried_meters) simp
    have cs: "carried (Suc i) =
       (if separation_type params = ''THREE PHASES'' then
          \<lparr>prev_meter_oil = get0 (Meter_Oil (es ! i)),
           prev_meter_water = get0 (Meter_Water (es ! i)), prev_meter_liquid = 0\<rparr>
        else \<lparr>prev_meter_oil = 0, prev_meter_water = 0,
              prev_meter_liquid = get0 (Meter_Liquid (es ! i))\<rparr>)"
      unfolding carried_def using i carried_meters [of "Suc i" es params] by simp
    show ?thesis
      unfolding oil
      by (simp add: cs ci before_def volume_differences_def Let_def initial_meters_def
          flow_rates_def calculate_three_phase_flow_def calculate_two_phase_flow_def)
  qed
  with run len step show ?thesis by blast
qed


theorem cumulative_meter_differencing_witness:
  "\<exists>rows q.
     process_entries scenario_parameters initial_meters
       [scenario_entry,
        scenario_entry\<lparr>Time := Some ''01:00'', Meter_Liquid := Some 30, SEP_P := Some 0\<rparr>]
       = Inr rows
   \<and> length rows = 2
   \<and> fst (volume_differences scenario_parameters
            (meters_after scenario_parameters initial_meters [scenario_entry])
            (scenario_entry\<lparr>Time := Some ''01:00'', Meter_Liquid := Some 30, SEP_P := Some 0\<rparr>))
       = Two_phase (- 20) (1 / 10)
   \<and> map_of (rows ! 1) ''Q Oil'' = Some (Number (Float q)) \<and> q < 0"
proof -
  let ?E = "scenario_entry\<lparr>Time := Some ''01:00'', Meter_Liquid := Some 30, SEP_P := Some 0\<rparr>"
  let ?es = "[scenario_entry, ?E]"
  have present: "\<forall>e\<in>set ?es. Time e \<noteq> None \<and> GAS_DP e \<noteq> None"
    by (simp add: scenario_entry_def)
  show ?thesis
    using cumulative_meter_differencing [OF present, of scenario_parameters]
    apply (elim exE conjE)
    apply (erule allE [of _ 1])
    apply (simp add: scenario_entry_def scenario_parameters_def shrinkage_at_zero_gauge
        vcf_sep_positive mult_less_0_iff)
    done
qed

section \<open>The averages\<close>

text \<open>
  A column of numbers is read without a \<^verbatim>\<open>KeyError\<close> and summed without a \<^verbatim>\<open>TypeError\<close>:
  the sum is the float sum when every value is a float, and complex as soon as one
  value is. The loop over the keys stores one mean per key other than the time label.
\<close>

lemma column_numbers:
  "\<forall>row\<in>set rs. \<exists>v. map_of row k = Some (Number v) \<Longrightarrow>
   column rs k = Inr (map (\<lambda>row. Number (num_of (map_of row k))) rs)"
  by (induction rs) auto

lemma sum_cells_complex:
  "sum_cells Cplx (map (\<lambda>row. Number (g row)) rs) = Inr Cplx"
  by (induction rs) simp_all

lemma sum_cells_numbers:
  "\<forall>row\<in>set rs. \<exists>v. map_of row k = Some (Number v) \<Longrightarrow>
   sum_cells (Float a) (map (\<lambda>row. Number (num_of (map_of row k))) rs) =
     Inr (if \<forall>row\<in>set rs. \<exists>x. map_of row k = Some (Number (Float x))
          then Float (a + sum_list (map (\<lambda>row. float_of (map_of row k)) rs))
          else Cplx)"
proof (induction rs arbitrary: a)
  case Nil
  then show ?case by simp
next
  case (Cons r rs)
  then obtain v where v: "map_of r k = Some (Number v)" by auto
  show ?case
  proof (cases v)
    case (Float x)
    with v Cons show ?thesis by (simp add: add.assoc)
  next
    case Cplx
    with v show ?thesis by (simp add: sum_cells_complex)
  qed
qed

lemma average_keys_means:
  assumes "rs \<noteq> []"
    and "\<forall>k\<in>set ks. k \<noteq> ''Time'' \<longrightarrow>
           (\<forall>row\<in>set rs. \<exists>v. map_of row k = Some (Number v))"
  shows "\<exists>avgs. average_keys rs ks acc = Inr avgs \<and>
     (\<forall>k. map_of avgs k =
        (if k \<in> set ks \<and> k \<noteq> ''Time''
         then Some (if \<forall>row\<in>set rs. \<exists>x. map_of row k = Some (Number (Float x))
                    then Float (sum_list (map (\<lambda>row. float_of (map_of row k)) rs)
                                / real (length rs))
                    else Cplx)
         else map_of acc k))"
proof -
  define M where "M k =
    (if \<forall>row\<in>set rs. \<exists>x. map_of row k = Some (Number (Float x))
     then Float (sum_list (map (\<lambda>row. float_of (map_of row k)) rs) / real (length rs))
     else Cplx)" for k
  have "\<exists>avgs. average_keys rs ks acc = Inr avgs \<and>
     (\<forall>k. map_of avgs k =
        (if k \<in> set ks \<and> k \<noteq> ''Time'' then Some (M k) else map_of acc k))"
    using assms(2)
  proof (induction ks arbitrary: acc)
    case Nil
    then show ?case by simp
  next
    case (Cons key keys)
    from Cons.prems have rest: "\<forall>k\<in>set keys. k \<noteq> ''Time'' \<longrightarrow>
           (\<forall>row\<in>set rs. \<exists>v. map_of row k = Some (Number v))"
      by simp
    show ?case
    proof (cases "key = ''Time''")
      case True
      from Cons.IH [OF rest, of acc] True show ?thesis by auto
    next
      case False
      with Cons.prems have nums: "\<forall>row\<in>set rs. \<exists>v. map_of row key = Some (Number v)"
        by simp
      have step: "average_keys rs (key # keys) acc =
                  average_keys rs keys (AList.update key (M key) acc)"
      proof (cases "\<forall>row\<in>set rs. \<exists>x. map_of row key = Some (Number (Float x))")
        case True
        show ?thesis
          using False assms(1)
          by (simp add: column_numbers [OF nums] sum_cells_numbers [OF nums] num_div_def
              M_def True)
      next
        case all: False
        show ?thesis
          using False assms(1)
          by (simp add: column_numbers [OF nums] sum_cells_numbers [OF nums] num_div_def
              M_def all)
      qed
      from Cons.IH [OF rest, of "AList.update key (M key) acc"]
      show ?thesis
        unfolding step using \<open>key \<noteq> ''Time''\<close> by (auto simp: update_conv')
    qed
  qed
  then show ?thesis unfolding M_def .
qed



text \<open>
  The results the program hands to \<^verbatim>\<open>calculate_averages\<close> are of this kind: every row of
  a run has the keys of \<open>result_keys\<close> and a number under each but the time label, a run
  over a time series that is not empty returns rows, and so \<^verbatim>\<open>perform_calculations\<close>
  leaves the mean of every result field over the rows of the run.
\<close>

lemma process_entry_row_shape:
  assumes "process_entry params prev e = Inr (prev', row)"
  shows "map fst row = result_keys params"
    and "\<forall>k\<in>set (result_keys params). k \<noteq> ''Time'' \<longrightarrow> (\<exists>v. map_of row k = Some (Number v))"
  using assms
  by (auto simp: process_entry_def Let_def case_prod_beta gor1_of_total result_keys_def
      split: option.splits if_splits)

lemma process_entries_rows_shape:
  "process_entries params prev es = Inr rows \<Longrightarrow>
   length rows = length es \<and>
   (\<forall>row\<in>set rows. map fst row = result_keys params \<and>
      (\<forall>k\<in>set (result_keys params). k \<noteq> ''Time'' \<longrightarrow> (\<exists>v. map_of row k = Some (Number v))))"
proof (induction es arbitrary: prev rows)
  case Nil
  then show ?case by simp
next
  case (Cons e es)
  from Cons.prems obtain prev' r rs where
    r: "process_entry params prev e = Inr (prev', r)"
    and rs: "process_entries params prev' es = Inr rs"
    and rows: "rows = r # rs"
    by (cases "process_entry params prev e"; cases "process_entries params (fst (projr (process_entry params prev e))) es")
       (auto split: prod.splits)
  from process_entry_row_shape [OF r] Cons.IH [OF rs] rows show ?case by simp
qed

lemma perform_calculations_averages:
  fixes proj :: project
  defines "params \<equiv> project_parameters proj"
  assumes present: "\<forall>e\<in>set (time_series proj). Time e \<noteq> None \<and> GAS_DP e \<noteq> None"
    and built: "time_series proj = [] \<longrightarrow> averages proj = []"
  shows "\<exists>rows avgs.
      perform_calculations proj = Inr (proj\<lparr>results := rows, averages := avgs\<rparr>)
    \<and> length rows = length (time_series proj)
    \<and> (\<forall>row\<in>set rows. map fst row = result_keys params)
    \<and> (rows = [] \<longrightarrow> avgs = [])
    \<and> (rows \<noteq> [] \<longrightarrow>
         (\<forall>k. map_of avgs k =
            (if k \<in> set (result_keys params) \<and> k \<noteq> ''Time''
             then Some (if \<forall>row\<in>set rows. \<exists>x. map_of row k = Some (Number (Float x))
                        then Float (sum_list (map (\<lambda>row. float_of (map_of row k)) rows)
                                    / real (length rows))
                        else Cplx)
             else None)))"
proof -
  from process_entries_rows [OF present, of params initial_meters]
  obtain rows where run: "process_entries params initial_meters (time_series proj) = Inr rows"
    by blast
  from process_entries_rows_shape [OF run]
  have len: "length rows = length (time_series proj)"
    and keys: "\<forall>row\<in>set rows. map fst row = result_keys params"
    and nums: "\<forall>k\<in>set (result_keys params). k \<noteq> ''Time'' \<longrightarrow>
                 (\<forall>row\<in>set rows. \<exists>v. map_of row k = Some (Number v))"
    by auto
  show ?thesis
  proof (cases rows)
    case Nil
    with len built have "averages proj = []" by simp
    with Nil run have "perform_calculations proj = Inr (proj\<lparr>results := [], averages := []\<rparr>)"
      by (simp add: perform_calculations_def calculate_averages_def params_def)
    with Nil len show ?thesis by auto
  next
    case (Cons r rs)
    then have ne: "rows \<noteq> []" by simp
    from keys Cons have k1: "map fst r = result_keys params" by simp
    from average_keys_means [OF ne nums, of "[]"]
    obtain avgs where a: "average_keys rows (result_keys params) [] = Inr avgs"
      and b: "\<forall>k. map_of avgs k =
            (if k \<in> set (result_keys params) \<and> k \<noteq> ''Time''
             then Some (if \<forall>row\<in>set rows. \<exists>x. map_of row k = Some (Number (Float x))
                        then Float (sum_list (map (\<lambda>row. float_of (map_of row k)) rows)
                                    / real (length rows))
                        else Cplx)
             else map_of [] k)"
      by blast
    have "perform_calculations proj = Inr (proj\<lparr>results := rows, averages := avgs\<rparr>)"
      using run a Cons k1
      by (simp add: perform_calculations_def calculate_averages_def params_def)
    moreover have "\<forall>k. map_of avgs k =
            (if k \<in> set (result_keys params) \<and> k \<noteq> ''Time''
             then Some (if \<forall>row\<in>set rows. \<exists>x. map_of row k = Some (Number (Float x))
                        then Float (sum_list (map (\<lambda>row. float_of (map_of row k)) rows)
                                    / real (length rows))
                        else Cplx)
             else None)"
      using b by simp
    ultimately show ?thesis using len keys ne by blast
  qed
qed

end
